theory Spec2Isabelle
  imports Main "HOL-Library.Sublist"
begin

section \<open>Folder synchronisation endpoint of \<^verbatim>\<open>app/api/v1/endpoints/data.py\<close>\<close>

text \<open>
  The development embeds \<^verbatim>\<open>sync_folder_sheets\<close>, the handler of
  \<^verbatim>\<open>POST /folders/{folder_token}/sync\<close>. The handler lists the spreadsheet files of a
  folder through the drive service, synchronises each of them through the sheet sync
  service inside a per-item \<^verbatim>\<open>try\<close>, and returns one \<^verbatim>\<open>FolderSyncResponse\<close>.

  Both services live outside this file of the repository. They are parameters of the
  model: each call takes the state of the outside world (remote platform, cache) and
  returns the new one together with either the value returned or the exception raised.

  The handler is embedded twice. \<open>sync_folder_sheets\<close> is the handler on services that keep
  to their contract: a call returns a value of the declared shape or raises an instance of
  \<^verbatim>\<open>Exception\<close>. \<open>sync_folder_sheets_py\<close> is the handler as Python runs it on any service:
  statement by statement in the order of the source, on returned values of any shape and on
  every \<^verbatim>\<open>BaseException\<close>. The first is the second on contract-keeping services.
\<close>

subsection \<open>Strings and integers\<close>

text \<open>
  Python strings are modelled as \<^typ>\<open>string\<close> holding the UTF-8 encoding of the text; the
  handler only concatenates strings, and concatenation commutes with the encoding.
  \<^verbatim>\<open>f"{n}"\<close> of an \<^verbatim>\<open>int\<close> is its decimal numeral, with a minus sign below zero.
\<close>

definition digit_char :: "nat \<Rightarrow> char" where
  "digit_char d = ''0123456789'' ! d"

fun str_nat :: "nat \<Rightarrow> string" where
  "str_nat n = (if n < 10 then [digit_char n] else str_nat (n div 10) @ [digit_char (n mod 10)])"

declare str_nat.simps [simp del]

definition str_int :: "int \<Rightarrow> string" where
  "str_int i = (if i < 0 then CHR ''-'' # str_nat (nat (- i)) else str_nat (nat i))"

text \<open>The literals of the source, as UTF-8 bytes.\<close>

definition sync_done_text :: string where
  \<comment> \<open>the literal before the counts in the message, ending in a colon and a space\<close>
  "sync_done_text = [CHR 0xE5, CHR 0x90, CHR 0x8C, CHR 0xE6, CHR 0xAD, CHR 0xA5,
                     CHR 0xE5, CHR 0xAE, CHR 0x8C, CHR 0xE6, CHR 0x88, CHR 0x90, CHR '':'', CHR '' '']"

definition succeeded_text :: string where
  \<comment> \<open>the literal after the counts: a space and the word for "succeeded"\<close>
  "succeeded_text = [CHR '' '', CHR 0xE6, CHR 0x88, CHR 0x90, CHR 0xE5, CHR 0x8A, CHR 0x9F]"

definition failed_text :: string where
  \<comment> \<open>the literal after the failed count: a space and the word for "failed"\<close>
  "failed_text = [CHR '' '', CHR 0xE5, CHR 0xA4, CHR 0xB1, CHR 0xE8, CHR 0xB4, CHR 0xA5]"

definition folder_sync_failed_text :: string where
  \<comment> \<open>the literal that opens the detail of the HTTP 500 error, ending in a colon and a space\<close>
  "folder_sync_failed_text = [CHR 0xE6, CHR 0x96, CHR 0x87, CHR 0xE4, CHR 0xBB, CHR 0xB6,
                              CHR 0xE5, CHR 0xA4, CHR 0xB9, CHR 0xE5, CHR 0x90, CHR 0x8C,
                              CHR 0xE6, CHR 0xAD, CHR 0xA5, CHR 0xE5, CHR 0xA4, CHR 0xB1,
                              CHR 0xE8, CHR 0xB4, CHR 0xA5, CHR '':'', CHR '' '']"

subsection \<open>Data\<close>

text \<open>A file of the folder, as the drive service returns it: the handler reads \<^verbatim>\<open>.token\<close> and \<^verbatim>\<open>.name\<close>.\<close>

record sheet_file =
  token :: string
  name :: string

text \<open>
  The dict returned by \<^verbatim>\<open>sync_sheet\<close>. The handler reads it with
  \<^verbatim>\<open>result.get("total_rows_written", 0)\<close> and \<^verbatim>\<open>result.get("sheets", [])\<close>, so either key
  may be absent. A key that is present holds a value of the type of the data model: an
  integer, and a sequence of per-sheet records (of any type \<open>'sh\<close>). With these types
  the two reads and the \<^verbatim>\<open>len\<close> cannot raise. A returned value of another shape is
  \<open>py_returned\<close> below.
\<close>

record 'sh sync_result =
  total_rows_written :: "int option"
  sheets :: "'sh list option"

definition dict_get :: "'a option \<Rightarrow> 'a \<Rightarrow> 'a" where
  \<comment> \<open>\<^verbatim>\<open>d.get(key, default)\<close>, on the entry of the key\<close>
  "dict_get entry dflt = (case entry of None \<Rightarrow> dflt | Some v \<Rightarrow> v)"

text \<open>
  Exceptions. The handlers of the source tell two classes apart: \<^verbatim>\<open>HTTPException\<close>
  and every other instance of \<^verbatim>\<open>Exception\<close>. The argument of \<open>Exception\<close> identifies the
  exception object; \<^verbatim>\<open>str(e)\<close> is a parameter \<open>str_exc\<close> of the model. A value of
  \<open>exn\<close> is an instance of \<^verbatim>\<open>Exception\<close>; an exception outside that class is a
  \<open>py_exception\<close> below.
\<close>

datatype exn =
    HTTPException (status_code: int) (detail: string)
  | Exception (args: string)

text \<open>
  An entry of \<^verbatim>\<open>details\<close>: a dict tagged by its \<^verbatim>\<open>"status"\<close> key, \<^verbatim>\<open>"success"\<close> with
  \<^verbatim>\<open>file_name, file_token, rows_written, sheets_count\<close> or \<^verbatim>\<open>"failed"\<close> with
  \<^verbatim>\<open>file_name, file_token, error\<close>.
\<close>

datatype detail =
    Success (file_name: string) (file_token: string) (rows_written: int) (sheets_count: int)
  | Failure (file_name: string) (file_token: string) (error: string)

fun status :: "detail \<Rightarrow> string" where
  "status (Success _ _ _ _) = ''success''"
| "status (Failure _ _ _) = ''failed''"

record FolderSyncResponse =
  success :: bool
  message :: string
  folder_token :: string
  total_sheets :: int
  synced_sheets :: int
  failed_sheets :: int
  details :: "detail list"

subsection \<open>The two services\<close>

record 'w DriveService =
  get_sheets_in_folder :: "string \<Rightarrow> 'w \<Rightarrow> (exn + sheet_file list) \<times> 'w"

record ('w, 'sh) SheetSyncService =
  sync_sheet :: "string \<Rightarrow> 'w \<Rightarrow> (exn + 'sh sync_result) \<times> 'w"

subsection \<open>The handler on services that keep to their contract\<close>

text \<open>
  The \<^verbatim>\<open>for\<close> loop over \<^verbatim>\<open>sheet_files\<close>. Its three local variables are arguments; the
  \<^verbatim>\<open>try\<close> of the body is the case distinction on what \<^verbatim>\<open>sync_sheet\<close> gives.
\<close>

fun sync_loop ::
  "(exn \<Rightarrow> string) \<Rightarrow> ('w, 'sh) SheetSyncService \<Rightarrow> sheet_file list \<Rightarrow>
   int \<Rightarrow> int \<Rightarrow> detail list \<Rightarrow> 'w \<Rightarrow> (int \<times> int \<times> detail list) \<times> 'w" where
  "sync_loop str_exc sync_service [] synced failed dets w = ((synced, failed, dets), w)"
| "sync_loop str_exc sync_service (sheet_file # rest) synced failed dets w =
     (case sync_sheet sync_service (token sheet_file) w of
        (Inr result, w') \<Rightarrow>
          sync_loop str_exc sync_service rest (synced + 1) failed
            (dets @ [Success (name sheet_file) (token sheet_file)
                       (dict_get (total_rows_written result) 0)
                       (int (length (dict_get (sheets result) [])))]) w'
      | (Inl e, w') \<Rightarrow>
          sync_loop str_exc sync_service rest synced (failed + 1)
            (dets @ [Failure (name sheet_file) (token sheet_file) (str_exc e)]) w')"

text \<open>The message of the response: the f-string, and the clause added when a file failed.\<close>

definition make_message :: "int \<Rightarrow> int \<Rightarrow> int \<Rightarrow> string" where
  "make_message synced n_total failed =
     (let message = sync_done_text @ str_int synced @ ''/'' @ str_int n_total @ succeeded_text
      in if failed > 0 then message @ '', '' @ str_int failed @ failed_text else message)"

text \<open>The two \<^verbatim>\<open>except\<close> clauses of the outer \<^verbatim>\<open>try\<close>, in the order of the source.\<close>

fun outer_except :: "(exn \<Rightarrow> string) \<Rightarrow> exn \<Rightarrow> exn" where
  "outer_except str_exc (HTTPException c d) = HTTPException c d"
| "outer_except str_exc e = HTTPException 500 (folder_sync_failed_text @ str_exc e)"

definition sync_folder_sheets ::
  "(exn \<Rightarrow> string) \<Rightarrow> string \<Rightarrow> 'w DriveService \<Rightarrow> ('w, 'sh) SheetSyncService \<Rightarrow>
   'w \<Rightarrow> (exn + FolderSyncResponse) \<times> 'w" where
  "sync_folder_sheets str_exc folder drive_service sync_service w =
     (case get_sheets_in_folder drive_service folder w of
        (Inl e, w') \<Rightarrow> (Inl (outer_except str_exc e), w')
      | (Inr sheet_files, w') \<Rightarrow>
          (case sync_loop str_exc sync_service sheet_files 0 0 [] w' of
             ((synced, failed, dets), w'') \<Rightarrow>
               (Inr \<lparr> success = (failed = 0),
                      message = make_message synced (int (length sheet_files)) failed,
                      folder_token = folder,
                      total_sheets = int (length sheet_files),
                      synced_sheets = synced,
                      failed_sheets = failed,
                      details = dets \<rparr>, w'')))"

subsection \<open>What the sync service answers during one run\<close>

text \<open>
  The answers of \<^verbatim>\<open>sync_sheet\<close> when it is called on the files in order, each call in
  the world the one before left behind; and the entry of \<^verbatim>\<open>details\<close> that the loop
  body appends for a file and its answer.
\<close>

fun sync_outcomes ::
  "('w, 'sh) SheetSyncService \<Rightarrow> sheet_file list \<Rightarrow> 'w \<Rightarrow> (exn + 'sh sync_result) list" where
  "sync_outcomes sync_service [] w = []"
| "sync_outcomes sync_service (sheet_file # rest) w =
     (case sync_sheet sync_service (token sheet_file) w of
        (r, w') \<Rightarrow> r # sync_outcomes sync_service rest w')"

fun outcome_detail :: "(exn \<Rightarrow> string) \<Rightarrow> sheet_file \<Rightarrow> exn + 'sh sync_result \<Rightarrow> detail" where
  "outcome_detail str_exc f (Inr result) =
     Success (name f) (token f) (dict_get (total_rows_written result) 0)
       (int (length (dict_get (sheets result) [])))"
| "outcome_detail str_exc f (Inl e) = Failure (name f) (token f) (str_exc e)"

subsection \<open>A concrete folder\<close>

text \<open>
  Services for the concrete runs below; the world is the number of service calls made.
  Folder \<open>F1\<close> holds the files \<open>A\<close>, \<open>B\<close>, \<open>C\<close>: \<open>A\<close> syncs with 10 rows in two sheets,
  \<open>B\<close> fails with "rate limited", \<open>C\<close> syncs with 5 rows and no \<^verbatim>\<open>"sheets"\<close> key.
  Folder \<open>F2\<close> holds \<open>D\<close>, whose sync raises an \<^verbatim>\<open>HTTPException\<close>, and \<open>A\<close>. Folder \<open>E\<close> is
  empty, folder \<open>GONE\<close> makes the listing raise an \<^verbatim>\<open>HTTPException\<close>, and any other
  folder makes it raise another exception.
\<close>

definition demo_file :: "string \<Rightarrow> sheet_file" where
  "demo_file t = \<lparr> token = t, name = t @ ''.xlsx'' \<rparr>"

definition demo_drive :: "nat DriveService" where
  "demo_drive = \<lparr> get_sheets_in_folder = (\<lambda>folder w.
     if folder = ''F1'' then (Inr [demo_file ''A'', demo_file ''B'', demo_file ''C''], Suc w)
     else if folder = ''F2'' then (Inr [demo_file ''D'', demo_file ''A''], Suc w)
     else if folder = ''E'' then (Inr [], Suc w)
     else if folder = ''GONE'' then (Inl (HTTPException 404 ''no such folder''), Suc w)
     else (Inl (Exception ''connection reset''), Suc w)) \<rparr>"

definition demo_sync :: "(nat, unit) SheetSyncService" where
  "demo_sync = \<lparr> sync_sheet = (\<lambda>t w.
     if t = ''A'' then (Inr \<lparr> total_rows_written = Some 10, sheets = Some [(), ()] \<rparr>, Suc w)
     else if t = ''C'' then (Inr \<lparr> total_rows_written = Some 5, sheets = None \<rparr>, Suc w)
     else if t = ''D'' then (Inl (HTTPException 429 ''slow down''), Suc w)
     else (Inl (Exception ''rate limited''), Suc w)) \<rparr>"

fun demo_str :: "exn \<Rightarrow> string" where
  "demo_str (HTTPException c d) = str_int c @ '': '' @ d"
| "demo_str (Exception a) = a"

subsection \<open>The handler as Python runs it\<close>

text \<open>
  What a call may raise: an instance of \<^verbatim>\<open>Exception\<close>, or a \<^verbatim>\<open>BaseException\<close> outside that
  class (\<^verbatim>\<open>asyncio.CancelledError\<close>, \<^verbatim>\<open>KeyboardInterrupt\<close>, \<^verbatim>\<open>SystemExit\<close>), named by
  its class. \<^verbatim>\<open>except Exception\<close> matches the first kind only.
\<close>

datatype py_exception =
    Exc exn
  | BaseException string

text \<open>
  What \<^verbatim>\<open>sync_sheet\<close> may return: a value without a \<^verbatim>\<open>get\<close> method (\<^verbatim>\<open>None\<close>), or a dict
  whose \<^verbatim>\<open>"sheets"\<close> entry, when present, is any value. \<open>read_result\<close> is the pair of reads
  in the dict literal of lines 106 to 112, in the order Python evaluates them:
  \<^verbatim>\<open>result.get(...)\<close> raises \<^verbatim>\<open>AttributeError\<close> on a value without \<^verbatim>\<open>get\<close>, and \<^verbatim>\<open>len\<close>
  raises \<^verbatim>\<open>TypeError\<close> on a value without a length. The argument of \<open>Exception\<close>
  names the class of the error.
\<close>

datatype 'sh py_value = PyNone | PyInt int | PyList "'sh list"

datatype 'sh py_returned =
    NoDict
  | Dict "int option" "'sh py_value option"

fun py_len :: "'sh py_value \<Rightarrow> py_exception + int" where
  "py_len (PyList xs) = Inr (int (length xs))"
| "py_len PyNone = Inl (Exc (Exception ''TypeError''))"
| "py_len (PyInt i) = Inl (Exc (Exception ''TypeError''))"

fun read_result :: "'sh py_returned \<Rightarrow> py_exception + int \<times> int" where
  "read_result NoDict = Inl (Exc (Exception ''AttributeError''))"
| "read_result (Dict rows_entry sheets_entry) =
     (case py_len (dict_get sheets_entry (PyList [])) of
        Inl e \<Rightarrow> Inl e
      | Inr n \<Rightarrow> Inr (dict_get rows_entry 0, n))"

record 'w PyDriveService =
  py_get_sheets_in_folder :: "string \<Rightarrow> 'w \<Rightarrow> (py_exception + sheet_file list) \<times> 'w"

record ('w, 'sh) PySheetSyncService =
  py_sync_sheet :: "string \<Rightarrow> 'w \<Rightarrow> (py_exception + 'sh py_returned) \<times> 'w"

text \<open>
  The per-item \<^verbatim>\<open>except Exception as e\<close> (lines 113 to 120), entered with the locals as
  they are when the exception is raised. An exception outside \<^verbatim>\<open>Exception\<close> is not matched
  and leaves the loop. \<^verbatim>\<open>str(e)\<close> runs the \<^verbatim>\<open>__str__\<close> of the exception, which may itself
  raise; what it raises leaves the loop too.
\<close>

fun item_except ::
  "(py_exception \<Rightarrow> py_exception + string) \<Rightarrow> sheet_file \<Rightarrow> py_exception \<Rightarrow>
   int \<Rightarrow> int \<Rightarrow> detail list \<Rightarrow> py_exception + int \<times> int \<times> detail list" where
  "item_except str_py sheet_file (BaseException a) synced failed dets = Inl (BaseException a)"
| "item_except str_py sheet_file (Exc e) synced failed dets =
     (case str_py (Exc e) of
        Inl raised \<Rightarrow> Inl raised
      | Inr s \<Rightarrow> Inr (synced, failed + 1,
                       dets @ [Failure (name sheet_file) (token sheet_file) s]))"

text \<open>
  The loop in the order of the source: the call (line 104), then \<^verbatim>\<open>synced_sheets += 1\<close>
  (line 105), then the reads of the result and the append (lines 106 to 112), all inside
  the \<^verbatim>\<open>try\<close>. An exception of the reads reaches the per-item handler with \<open>synced\<close>
  already incremented.
\<close>

fun sync_loop_py ::
  "(py_exception \<Rightarrow> py_exception + string) \<Rightarrow> ('w, 'sh) PySheetSyncService \<Rightarrow>
   sheet_file list \<Rightarrow> int \<Rightarrow> int \<Rightarrow> detail list \<Rightarrow> 'w \<Rightarrow>
   (py_exception + int \<times> int \<times> detail list) \<times> 'w" where
  "sync_loop_py str_py sync_service [] synced failed dets w = (Inr (synced, failed, dets), w)"
| "sync_loop_py str_py sync_service (sheet_file # rest) synced failed dets w =
     (case py_sync_sheet sync_service (token sheet_file) w of
        (answer, w') \<Rightarrow>
          (case (case answer of
                   Inl e \<Rightarrow> item_except str_py sheet_file e synced failed dets
                 | Inr result \<Rightarrow>
                     (case read_result result of
                        Inr (rows, n) \<Rightarrow>
                          Inr (synced + 1, failed,
                               dets @ [Success (name sheet_file) (token sheet_file) rows n])
                      | Inl e \<Rightarrow> item_except str_py sheet_file e (synced + 1) failed dets)) of
             Inl escaped \<Rightarrow> (Inl escaped, w')
           | Inr (synced', failed', dets') \<Rightarrow>
               sync_loop_py str_py sync_service rest synced' failed' dets' w'))"

text \<open>
  The outer \<^verbatim>\<open>except\<close> clauses (lines 137 to 140): an \<^verbatim>\<open>HTTPException\<close> is re-raised, any
  other instance of \<^verbatim>\<open>Exception\<close> is wrapped, unless its \<^verbatim>\<open>str\<close> raises, and anything else
  is matched by neither clause.
\<close>

fun outer_except_py ::
  "(py_exception \<Rightarrow> py_exception + string) \<Rightarrow> py_exception \<Rightarrow> py_exception" where
  "outer_except_py str_py (Exc (HTTPException c d)) = Exc (HTTPException c d)"
| "outer_except_py str_py (Exc (Exception a)) =
     (case str_py (Exc (Exception a)) of
        Inl raised \<Rightarrow> raised
      | Inr s \<Rightarrow> Exc (HTTPException 500 (folder_sync_failed_text @ s)))"
| "outer_except_py str_py (BaseException a) = BaseException a"

text \<open>The outer \<^verbatim>\<open>try\<close> covers the listing call and the loop alike.\<close>

definition sync_folder_sheets_py ::
  "(py_exception \<Rightarrow> py_exception + string) \<Rightarrow> string \<Rightarrow> 'w PyDriveService \<Rightarrow>
   ('w, 'sh) PySheetSyncService \<Rightarrow> 'w \<Rightarrow> (py_exception + FolderSyncResponse) \<times> 'w" where
  "sync_folder_sheets_py str_py folder drive_service sync_service w =
     (case py_get_sheets_in_folder drive_service folder w of
        (Inl e, w') \<Rightarrow> (Inl (outer_except_py str_py e), w')
      | (Inr sheet_files, w') \<Rightarrow>
          (case sync_loop_py str_py sync_service sheet_files 0 0 [] w' of
             (Inl e, w'') \<Rightarrow> (Inl (outer_except_py str_py e), w'')
           | (Inr (synced, failed, dets), w'') \<Rightarrow>
               (Inr \<lparr> success = (failed = 0),
                      message = make_message synced (int (length sheet_files)) failed,
                      folder_token = folder,
                      total_sheets = int (length sheet_files),
                      synced_sheets = synced,
                      failed_sheets = failed,
                      details = dets \<rparr>, w'')))"

text \<open>Services that keep to their contract, seen as services of any shape.\<close>

definition contract_drive :: "'w DriveService \<Rightarrow> 'w PyDriveService" where
  "contract_drive drive_service = \<lparr> py_get_sheets_in_folder = (\<lambda>folder w.
     case get_sheets_in_folder drive_service folder w of
       (Inl e, w') \<Rightarrow> (Inl (Exc e), w')
     | (Inr sheet_files, w') \<Rightarrow> (Inr sheet_files, w')) \<rparr>"

definition contract_sync :: "('w, 'sh) SheetSyncService \<Rightarrow> ('w, 'sh) PySheetSyncService" where
  "contract_sync sync_service = \<lparr> py_sync_sheet = (\<lambda>t w.
     case sync_sheet sync_service t w of
       (Inl e, w') \<Rightarrow> (Inl (Exc e), w')
     | (Inr result, w') \<Rightarrow>
         (Inr (Dict (total_rows_written result) (map_option PyList (sheets result))), w')) \<rparr>"

fun contract_str :: "(exn \<Rightarrow> string) \<Rightarrow> py_exception \<Rightarrow> py_exception + string" where
  "contract_str str_exc (Exc e) = Inr (str_exc e)"
| "contract_str str_exc (BaseException a) = Inr a"

fun contract_answer :: "(exn + 'a) \<times> 'w \<Rightarrow> (py_exception + 'a) \<times> 'w" where
  "contract_answer (Inl e, w) = (Inl (Exc e), w)"
| "contract_answer (Inr r, w) = (Inr r, w)"

text \<open>
  The answers of the sync calls on the files in order; whether an answer makes the loop
  add one to \<open>failed\<close>; and the entry appended for a file and its answer (with the empty
  text where \<^verbatim>\<open>str\<close> raises and no entry is appended).
\<close>

fun sync_outcomes_py ::
  "('w, 'sh) PySheetSyncService \<Rightarrow> sheet_file list \<Rightarrow> 'w \<Rightarrow>
   (py_exception + 'sh py_returned) list" where
  "sync_outcomes_py sync_service [] w = []"
| "sync_outcomes_py sync_service (sheet_file # rest) w =
     (case py_sync_sheet sync_service (token sheet_file) w of
        (answer, w') \<Rightarrow> answer # sync_outcomes_py sync_service rest w')"

definition str_text :: "(py_exception \<Rightarrow> py_exception + string) \<Rightarrow> py_exception \<Rightarrow> string" where
  "str_text str_py e = (case str_py e of Inr s \<Rightarrow> s | Inl raised \<Rightarrow> [])"

fun item_failed :: "py_exception + 'sh py_returned \<Rightarrow> bool" where
  "item_failed (Inl e) = True"
| "item_failed (Inr result) = isl (read_result result)"

fun item_detail_py ::
  "(py_exception \<Rightarrow> py_exception + string) \<Rightarrow> sheet_file \<Rightarrow>
   py_exception + 'sh py_returned \<Rightarrow> detail" where
  "item_detail_py str_py f (Inl e) = Failure (name f) (token f) (str_text str_py e)"
| "item_detail_py str_py f (Inr result) =
     (case read_result result of
        Inr (rows, n) \<Rightarrow> Success (name f) (token f) rows n
      | Inl e \<Rightarrow> Failure (name f) (token f) (str_text str_py e))"

text \<open>
  Further concrete services. Folder \<open>F5\<close> holds \<open>M\<close>, whose sync returns \<^verbatim>\<open>None\<close>; folder
  \<open>F3\<close> holds \<open>A\<close> and \<open>N\<close>, and the sync of \<open>N\<close> returns \<^verbatim>\<open>{"total_rows_written": 3,
  "sheets": None}\<close>; folder \<open>F4\<close> holds \<open>A\<close>, \<open>K\<close>, \<open>C\<close>, and the sync of \<open>K\<close> raises
  \<^verbatim>\<open>asyncio.CancelledError\<close>; folder \<open>F6\<close> holds \<open>S\<close> and \<open>A\<close>, and the sync of \<open>S\<close> raises
  an exception whose \<^verbatim>\<open>__str__\<close> raises an \<^verbatim>\<open>HTTPException\<close>. Every other folder and file
  is as above.
\<close>

definition demo_drive_py :: "nat PyDriveService" where
  "demo_drive_py = \<lparr> py_get_sheets_in_folder = (\<lambda>folder w.
     if folder = ''F3'' then (Inr [demo_file ''A'', demo_file ''N''], Suc w)
     else if folder = ''F4'' then (Inr [demo_file ''A'', demo_file ''K'', demo_file ''C''], Suc w)
     else if folder = ''F5'' then (Inr [demo_file ''M''], Suc w)
     else if folder = ''F6'' then (Inr [demo_file ''S'', demo_file ''A''], Suc w)
     else py_get_sheets_in_folder (contract_drive demo_drive) folder w) \<rparr>"

definition demo_sync_py :: "(nat, unit) PySheetSyncService" where
  "demo_sync_py = \<lparr> py_sync_sheet = (\<lambda>t w.
     if t = ''N'' then (Inr (Dict (Some 3) (Some PyNone)), Suc w)
     else if t = ''M'' then (Inr NoDict, Suc w)
     else if t = ''K'' then (Inl (BaseException ''CancelledError''), Suc w)
     else if t = ''S'' then (Inl (Exc (Exception ''unprintable'')), Suc w)
     else py_sync_sheet (contract_sync demo_sync) t w) \<rparr>"

definition demo_str_py :: "py_exception \<Rightarrow> py_exception + string" where
  "demo_str_py e =
     (if e = Exc (Exception ''unprintable'') then Inl (Exc (HTTPException 418 ''teapot''))
      else contract_str demo_str e)"

section \<open>Properties\<close>

subsection \<open>The loop\<close>

lemma length_sync_outcomes: "length (sync_outcomes sync_service fs w) = length fs"
  by (induction fs arbitrary: w) (auto split: prod.splits)

text \<open>
  The loop adds one to \<open>synced\<close> for each answer that is a result, one to \<open>failed\<close> for each
  answer that is an exception, and appends the entries of the files in order.
\<close>

lemma sync_loop_fst:
  "fst (sync_loop str_exc sync_service fs synced failed dets w) =
     (synced + int (length (filter (\<lambda>r. \<not> isl r) (sync_outcomes sync_service fs w))),
      failed + int (length (filter isl (sync_outcomes sync_service fs w))),
      dets @ map2 (outcome_detail str_exc) fs (sync_outcomes sync_service fs w))"
proof (induction fs arbitrary: synced failed dets w)
  case Nil
  show ?case by simp
next
  case (Cons f fs)
  obtain r w' where step: "sync_sheet sync_service (token f) w = (r, w')"
    by (cases "sync_sheet sync_service (token f) w")
  show ?case
  proof (cases r)
    case (Inl e)
    with step Cons.IH [of synced "failed + 1" _ w'] show ?thesis by simp
  next
    case (Inr result)
    with step Cons.IH [of "synced + 1" failed _ w'] show ?thesis by simp
  qed
qed

text \<open>The response of a run whose listing call returned \<open>sheet_files\<close>.\<close>

lemma sync_folder_sheets_listed:
  assumes "get_sheets_in_folder drive_service folder w = (Inr sheet_files, w')"
  shows "fst (sync_folder_sheets str_exc folder drive_service sync_service w) =
     Inr \<lparr> success = (filter isl (sync_outcomes sync_service sheet_files w') = []),
           message = make_message
             (int (length (filter (\<lambda>r. \<not> isl r) (sync_outcomes sync_service sheet_files w'))))
             (int (length sheet_files))
             (int (length (filter isl (sync_outcomes sync_service sheet_files w')))),
           folder_token = folder,
           total_sheets = int (length sheet_files),
           synced_sheets = int (length (filter (\<lambda>r. \<not> isl r) (sync_outcomes sync_service sheet_files w'))),
           failed_sheets = int (length (filter isl (sync_outcomes sync_service sheet_files w'))),
           details = map2 (outcome_detail str_exc) sheet_files (sync_outcomes sync_service sheet_files w') \<rparr>"
proof -
  obtain s f d w'' where loop: "sync_loop str_exc sync_service sheet_files 0 0 [] w' = ((s, f, d), w'')"
    by (metis prod_cases3 surj_pair)
  from sync_loop_fst [of str_exc sync_service sheet_files 0 0 "[]" w'] loop
  have "s = int (length (filter (\<lambda>r. \<not> isl r) (sync_outcomes sync_service sheet_files w')))"
    and "f = int (length (filter isl (sync_outcomes sync_service sheet_files w')))"
    and "d = map2 (outcome_detail str_exc) sheet_files (sync_outcomes sync_service sheet_files w')"
    by simp_all
  with assms loop show ?thesis
    by (simp add: sync_folder_sheets_def)
qed

text \<open>The entries of \<^verbatim>\<open>details\<close>, read back field by field.\<close>

lemma status_outcome_detail:
  "(status (outcome_detail str_exc f out) = ''failed'') = isl out"
  "(status (outcome_detail str_exc f out) = ''success'') = (\<not> isl out)"
  "file_name (outcome_detail str_exc f out) = name f"
  "file_token (outcome_detail str_exc f out) = token f"
  by (cases out; simp)+

lemma map_outcome_details:
  assumes "length outs = length fs"
  shows "map file_name (map2 (outcome_detail str_exc) fs outs) = map name fs"
    and "map file_token (map2 (outcome_detail str_exc) fs outs) = map token fs"
    and "map (\<lambda>d. status d = ''failed'') (map2 (outcome_detail str_exc) fs outs) = map isl outs"
    and "map (\<lambda>d. status d = ''success'') (map2 (outcome_detail str_exc) fs outs) =
           map (\<lambda>out. \<not> isl out) outs"
  using assms
  by (induction fs outs rule: list_induct2') (simp_all add: status_outcome_detail)

lemma count_outcome_details:
  assumes "length outs = length fs"
  shows "length (filter (\<lambda>d. status d = ''failed'') (map2 (outcome_detail str_exc) fs outs)) =
           length (filter isl outs)"
    and "length (filter (\<lambda>d. status d = ''success'') (map2 (outcome_detail str_exc) fs outs)) =
           length (filter (\<lambda>out. \<not> isl out) outs)"
  using assms
  by (induction fs outs rule: list_induct2') (simp_all add: status_outcome_detail)

subsection \<open>Decimal numerals and the literals\<close>

text \<open>
  A decimal numeral holds digits and at most a minus sign; in particular it never holds
  the byte \<open>0xA4\<close>, which occurs in the word for "failed" and in no other literal of the
  message.
\<close>

lemma digit_char_in: "d < 10 \<Longrightarrow> digit_char d \<in> set ''0123456789''"
  unfolding digit_char_def by (rule nth_mem) simp

lemma set_str_nat: "set (str_nat n) \<subseteq> set ''0123456789''"
proof (induction n rule: str_nat.induct)
  case (1 n)
  show ?case
  proof (cases "n < 10")
    case True
    then show ?thesis
      using digit_char_in [of n] by (subst str_nat.simps) simp
  next
    case False
    have "n mod 10 < 10" by simp
    with False "1.IH" digit_char_in [of "n mod 10"] show ?thesis
      by (subst str_nat.simps) simp
  qed
qed

lemma str_nat_no_A4: "CHR 0xA4 \<notin> set (str_nat n)"
proof
  assume "CHR 0xA4 \<in> set (str_nat n)"
  with set_str_nat [of n] have "CHR 0xA4 \<in> set ''0123456789''"
    by (rule_tac subsetD)
  then show False by simp
qed

lemma failed_word_not_in_digits: "CHR 0xA4 \<notin> set (str_int i)"
  using str_nat_no_A4 [of "nat i"] str_nat_no_A4 [of "nat (- i)"]
  by (simp add: str_int_def)

lemma base_message_no_failed_text:
  "\<not> sublist failed_text
       (sync_done_text @ str_int a @ ''/'' @ str_int b @ succeeded_text)"
proof
  assume "sublist failed_text (sync_done_text @ str_int a @ ''/'' @ str_int b @ succeeded_text)"
  then have "set failed_text \<subseteq> set (sync_done_text @ str_int a @ ''/'' @ str_int b @ succeeded_text)"
    by (rule set_mono_sublist)
  moreover have "CHR 0xA4 \<in> set failed_text"
    by (simp add: failed_text_def)
  ultimately have "CHR 0xA4 \<in> set (sync_done_text @ str_int a @ ''/'' @ str_int b @ succeeded_text)"
    by (rule subsetD)
  then show False
    using failed_word_not_in_digits [of a] failed_word_not_in_digits [of b]
    by (simp add: sync_done_text_def succeeded_text_def)
qed

text \<open>Two answer lists with the same success pattern count alike.\<close>

lemma count_by_flags:
  assumes "map P xs = map P ys"
  shows "length (filter P xs) = length (filter P ys)"
    and "length (filter (\<lambda>x. \<not> P x) xs) = length (filter (\<lambda>y. \<not> P y) ys)"
  using assms
proof (induction xs arbitrary: ys)
  case Nil
  { case 1 then show ?case by simp }
  { case 2 then show ?case by simp }
next
  case (Cons x xs)
  { case 1
    then obtain y ys' where "ys = y # ys'" "P x = P y" "map P xs = map P ys'"
      by (cases ys) auto
    with Cons.IH(1) [of ys'] show ?case by simp }
  { case 2
    then obtain y ys' where "ys = y # ys'" "P x = P y" "map P xs = map P ys'"
      by (cases ys) auto
    with Cons.IH(2) [of ys'] show ?case by simp }
qed

lemmas demo_defs = demo_drive_def demo_sync_def demo_file_def

subsection \<open>The concrete runs\<close>

lemma demo_F1_listed:
  "get_sheets_in_folder demo_drive ''F1'' (0::nat) =
      (Inr [demo_file ''A'', demo_file ''B'', demo_file ''C''], Suc 0)"
  by (simp add: demo_drive_def)

lemma demo_F1_outcomes:
  "sync_outcomes demo_sync [demo_file ''A'', demo_file ''B'', demo_file ''C''] (Suc 0) =
     [Inr \<lparr> total_rows_written = Some 10, sheets = Some [(), ()] \<rparr>,
      Inl (Exception ''rate limited''),
      Inr \<lparr> total_rows_written = Some 5, sheets = None \<rparr>]"
  by (simp add: demo_defs)

lemma demo_F1_run:
  "sync_folder_sheets demo_str ''F1'' demo_drive demo_sync 0 =
     (Inr \<lparr> success = False,
            message = make_message 2 3 1,
            folder_token = ''F1'', total_sheets = 3, synced_sheets = 2, failed_sheets = 1,
            details = [Success ''A.xlsx'' ''A'' 10 2,
                       Failure ''B.xlsx'' ''B'' ''rate limited'',
                       Success ''C.xlsx'' ''C'' 5 0] \<rparr>, 4)"
  by (simp add: sync_folder_sheets_def demo_defs dict_get_def)

lemma demo_F1_response:
  "fst (sync_folder_sheets demo_str ''F1'' demo_drive demo_sync 0) =
     Inr \<lparr> success = False,
            message = make_message 2 3 1,
            folder_token = ''F1'', total_sheets = 3, synced_sheets = 2, failed_sheets = 1,
            details = [Success ''A.xlsx'' ''A'' 10 2,
                       Failure ''B.xlsx'' ''B'' ''rate limited'',
                       Success ''C.xlsx'' ''C'' 5 0] \<rparr>"
  by (simp add: demo_F1_run)

lemma str_int_small: "str_int 1 = ''1''" "str_int 2 = ''2''" "str_int 3 = ''3''"
  by (simp_all add: str_int_def str_nat.simps digit_char_def)

subsection \<open>Counts of the response\<close>

text \<open>
  On services that keep to their contract: whenever the listing call succeeds, the handler
  returns a response whose \<open>total_sheets\<close> is the length of the file list returned by the
  drive service, and \<open>total_sheets = synced_sheets + failed_sheets = length details\<close>.
\<close>

lemma report_counts_consistent:
  assumes "get_sheets_in_folder drive_service folder w = (Inr sheet_files, w')"
  shows "\<exists>r. fst (sync_folder_sheets str_exc folder drive_service sync_service w) = Inr r
           \<and> total_sheets r = int (length sheet_files)
           \<and> total_sheets r = synced_sheets r + failed_sheets r
           \<and> synced_sheets r + failed_sheets r = int (length (details r))"
proof -
  let ?outs = "sync_outcomes sync_service sheet_files w'"
  have "length (filter (\<lambda>r. \<not> isl r) ?outs) + length (filter isl ?outs) = length sheet_files"
    using sum_length_filter_compl [of isl ?outs] length_sync_outcomes [of sync_service sheet_files w']
    by simp
  then show ?thesis
    using sync_folder_sheets_listed [OF assms, of str_exc sync_service]
    by (simp add: length_sync_outcomes)
qed

lemma report_counts_consistent_F1:
  "\<exists>r. fst (sync_folder_sheets demo_str ''F1'' demo_drive demo_sync 0) = Inr r
        \<and> total_sheets r = 3 \<and> synced_sheets r = 2 \<and> failed_sheets r = 1
        \<and> total_sheets r = synced_sheets r + failed_sheets r
        \<and> synced_sheets r + failed_sheets r = int (length (details r))"
proof -
  from report_counts_consistent [OF demo_F1_listed, of demo_str demo_sync]
  obtain r where r: "fst (sync_folder_sheets demo_str ''F1'' demo_drive demo_sync 0) = Inr r"
    "total_sheets r = int (length [demo_file ''A'', demo_file ''B'', demo_file ''C''])"
    "total_sheets r = synced_sheets r + failed_sheets r"
    "synced_sheets r + failed_sheets r = int (length (details r))"
    by blast
  have "failed_sheets r = 1"
    using r(1) by (auto simp add: demo_F1_run)
  with r show ?thesis by auto
qed

text \<open>
  Claim C2. Whenever the listing call succeeds, the \<open>success\<close> flag of the response is
  true if and only if \<open>failed_sheets\<close> is 0.
\<close>

theorem success_iff_no_failed:
  assumes "get_sheets_in_folder drive_service folder w = (Inr sheet_files, w')"
  shows "\<exists>r. fst (sync_folder_sheets str_exc folder drive_service sync_service w) = Inr r
           \<and> (success r \<longleftrightarrow> failed_sheets r = 0)"
  using sync_folder_sheets_listed [OF assms, of str_exc sync_service] by simp

theorem success_iff_no_failed_witness:
  "\<exists>r. fst (sync_folder_sheets demo_str ''F1'' demo_drive demo_sync 0) = Inr r
        \<and> \<not> success r \<and> failed_sheets r \<noteq> 0"
  using success_iff_no_failed [OF demo_F1_listed, of demo_str demo_sync]
  by (simp add: demo_F1_run)

text \<open>
  Claim C6. If the drive service returns the empty list, the handler returns a response
  with \<open>total_sheets = 0\<close>, \<open>synced_sheets = 0\<close>, \<open>failed_sheets = 0\<close>, \<open>success\<close> true and
  empty \<open>details\<close>; the sync service is not called, so the world is the one the listing
  call left.
\<close>

theorem empty_folder_report:
  assumes "get_sheets_in_folder drive_service folder w = (Inr [], w')"
  shows "\<exists>r. sync_folder_sheets str_exc folder drive_service sync_service w = (Inr r, w')
           \<and> total_sheets r = 0 \<and> synced_sheets r = 0 \<and> failed_sheets r = 0
           \<and> success r \<and> details r = []"
  using assms by (simp add: sync_folder_sheets_def)

theorem empty_folder_report_witness:
  "\<exists>r. sync_folder_sheets demo_str ''E'' demo_drive demo_sync 0 = (Inr r, 1)
        \<and> total_sheets r = 0 \<and> synced_sheets r = 0 \<and> failed_sheets r = 0
        \<and> success r \<and> details r = []"
proof -
  have "get_sheets_in_folder demo_drive ''E'' (0::nat) = (Inr [], 1)"
    by (simp add: demo_drive_def)
  from empty_folder_report [OF this, of demo_str demo_sync] show ?thesis .
qed

subsection \<open>Failures\<close>

text \<open>
  Claim C4. If the listing call raises, the handler returns no response at all: it
  raises one \<^verbatim>\<open>HTTPException\<close>, in the world the listing call left (no file was synced).
\<close>

theorem listing_failure_aborts:
  assumes "get_sheets_in_folder drive_service folder w = (Inl e, w')"
  shows "(\<forall>r. fst (sync_folder_sheets str_exc folder drive_service sync_service w) \<noteq> Inr r)
       \<and> (\<exists>c d. sync_folder_sheets str_exc folder drive_service sync_service w =
                  (Inl (HTTPException c d), w'))"
  using assms by (cases e) (simp_all add: sync_folder_sheets_def)

theorem listing_failure_aborts_witness:
  "(\<forall>r. fst (sync_folder_sheets demo_str ''X'' demo_drive demo_sync 0) \<noteq> Inr r)
   \<and> (\<exists>c d. sync_folder_sheets demo_str ''X'' demo_drive demo_sync 0 =
              (Inl (HTTPException c d), 1))"
proof -
  have "get_sheets_in_folder demo_drive ''X'' (0::nat) = (Inl (Exception ''connection reset''), 1)"
    by (simp add: demo_drive_def)
  from listing_failure_aborts [OF this, of demo_str demo_sync] show ?thesis .
qed



subsection \<open>The entries of details\<close>

text \<open>
  Claim C5. For a file list of length \<open>N\<close>, \<open>details\<close> has exactly one entry per file, in
  the order of the list: entry \<open>k\<close> carries the name and token of file \<open>k\<close> and is a failure
  exactly when the sync of file \<open>k\<close> raised. In particular, if exactly one sync raises,
  \<open>details\<close> holds exactly one failure and \<open>N - 1\<close> successes.
\<close>

theorem details_follow_file_order:
  assumes "get_sheets_in_folder drive_service folder w = (Inr sheet_files, w')"
  shows "\<exists>r. fst (sync_folder_sheets str_exc folder drive_service sync_service w) = Inr r
           \<and> length (details r) = length sheet_files
           \<and> map file_name (details r) = map name sheet_files
           \<and> map file_token (details r) = map token sheet_files
           \<and> map (\<lambda>d. status d = ''failed'') (details r) =
               map isl (sync_outcomes sync_service sheet_files w')
           \<and> (length (filter isl (sync_outcomes sync_service sheet_files w')) = 1 \<longrightarrow>
                 length (filter (\<lambda>d. status d = ''failed'') (details r)) = 1
               \<and> length (filter (\<lambda>d. status d = ''success'') (details r)) =
                   length sheet_files - 1)"
proof -
  let ?outs = "sync_outcomes sync_service sheet_files w'"
  let ?dets = "map2 (outcome_detail str_exc) sheet_files ?outs"
  have len: "length ?outs = length sheet_files"
    by (rule length_sync_outcomes)
  note maps = map_outcome_details [OF len, of str_exc]
  note failed = count_outcome_details(1) [OF len, of str_exc]
  note succeeded = count_outcome_details(2) [OF len, of str_exc]
  have split: "length (filter (\<lambda>out. \<not> isl out) ?outs) = length sheet_files - length (filter isl ?outs)"
    using sum_length_filter_compl [of isl ?outs] len by simp
  show ?thesis
    using sync_folder_sheets_listed [OF assms, of str_exc sync_service]
      maps(1,2,3) failed succeeded split len
    by simp
qed

theorem details_follow_file_order_witness:
  "\<exists>r. fst (sync_folder_sheets demo_str ''F1'' demo_drive demo_sync 0) = Inr r
        \<and> length (details r) = 3
        \<and> map file_name (details r) = [''A.xlsx'', ''B.xlsx'', ''C.xlsx'']
        \<and> map file_token (details r) = [''A'', ''B'', ''C'']
        \<and> map (\<lambda>d. status d = ''failed'') (details r) = [False, True, False]
        \<and> length (filter (\<lambda>d. status d = ''failed'') (details r)) = 1
        \<and> length (filter (\<lambda>d. status d = ''success'') (details r)) = 2"
  using details_follow_file_order [OF demo_F1_listed, of demo_str demo_sync]
  unfolding demo_F1_outcomes by (auto simp add: demo_file_def)

text \<open>
  Claim C7. For a file whose sync returns a result with \<open>total_rows_written = n\<close> and
  sheets \<open>shs\<close>, the entry of the file is a success with the file's name, the file's token,
  \<open>n\<close> as \<open>rows_written\<close> and the length of \<open>shs\<close> as \<open>sheets_count\<close>.
\<close>

theorem success_entry_fields:
  assumes "get_sheets_in_folder drive_service folder w = (Inr sheet_files, w')"
    and "i < length sheet_files"
    and "sync_outcomes sync_service sheet_files w' ! i = Inr result"
    and "total_rows_written result = Some n"
    and "sheets result = Some shs"
  shows "\<exists>r. fst (sync_folder_sheets str_exc folder drive_service sync_service w) = Inr r
           \<and> details r ! i =
               Success (name (sheet_files ! i)) (token (sheet_files ! i)) n (int (length shs))"
proof -
  have "map2 (outcome_detail str_exc) sheet_files (sync_outcomes sync_service sheet_files w') ! i =
      Success (name (sheet_files ! i)) (token (sheet_files ! i)) n (int (length shs))"
    using assms(2-) by (simp add: length_sync_outcomes dict_get_def)
  then show ?thesis
    using sync_folder_sheets_listed [OF assms(1), of str_exc sync_service] by simp
qed

theorem success_entry_fields_witness:
  "\<exists>r. fst (sync_folder_sheets demo_str ''F1'' demo_drive demo_sync 0) = Inr r
        \<and> details r ! 0 = Success ''A.xlsx'' ''A'' 10 2"
proof -
  let ?res = "\<lparr> total_rows_written = Some 10, sheets = Some [(), ()] \<rparr>"
  have i: "(0::nat) < length [demo_file ''A'', demo_file ''B'', demo_file ''C'']"
    by simp
  have out: "sync_outcomes demo_sync [demo_file ''A'', demo_file ''B'', demo_file ''C''] (Suc 0) ! 0 =
      Inr ?res"
    unfolding demo_F1_outcomes by simp
  have rows: "total_rows_written ?res = Some 10" and shs: "sheets ?res = Some [(), ()]"
    by simp_all
  from success_entry_fields [OF demo_F1_listed i out rows shs, of demo_str]
  show ?thesis by (simp add: demo_file_def)
qed

text \<open>
  The same entry for any result: a key that the result lacks counts as 0 rows, or as 0
  sheets, which are the defaults of the two \<^verbatim>\<open>get\<close> calls.
\<close>

lemma success_entry_defaults:
  assumes "get_sheets_in_folder drive_service folder w = (Inr sheet_files, w')"
    and "i < length sheet_files"
    and "sync_outcomes sync_service sheet_files w' ! i = Inr result"
  shows "\<exists>r. fst (sync_folder_sheets str_exc folder drive_service sync_service w) = Inr r
           \<and> details r ! i =
               Success (name (sheet_files ! i)) (token (sheet_files ! i))
                 (case total_rows_written result of None \<Rightarrow> 0 | Some n \<Rightarrow> n)
                 (case sheets result of None \<Rightarrow> 0 | Some shs \<Rightarrow> int (length shs))"
proof -
  have "map2 (outcome_detail str_exc) sheet_files (sync_outcomes sync_service sheet_files w') ! i =
      Success (name (sheet_files ! i)) (token (sheet_files ! i))
                 (case total_rows_written result of None \<Rightarrow> 0 | Some n \<Rightarrow> n)
                 (case sheets result of None \<Rightarrow> 0 | Some shs \<Rightarrow> int (length shs))"
    using assms(2-) by (simp add: length_sync_outcomes dict_get_def split: option.splits)
  then show ?thesis
    using sync_folder_sheets_listed [OF assms(1), of str_exc sync_service] by simp
qed

subsection \<open>The message\<close>

text \<open>
  The response carries the message built from its own counts (lines 123 to 125).
\<close>

lemma message_of_response:
  assumes "fst (sync_folder_sheets str_exc folder drive_service sync_service w) = Inr r"
  shows "message r = make_message (synced_sheets r) (total_sheets r) (failed_sheets r)"
  using assms
  by (auto simp add: sync_folder_sheets_def split: prod.splits sum.splits)

text \<open>
  Claim C8. In every response returned, the message is the opening literal, then
  \<open>synced_sheets\<close>, a slash and \<open>total_sheets\<close> in decimal, then the word for "succeeded";
  the clause with the failed count and the word for "failed" follows if and only if
  \<open>failed_sheets > 0\<close>, and without it the word for "failed" does not occur at all.
\<close>

theorem message_reports_counts:
  assumes "fst (sync_folder_sheets str_exc folder drive_service sync_service w) = Inr r"
  shows "message r =
           sync_done_text @ str_int (synced_sheets r) @ ''/'' @ str_int (total_sheets r) @
           succeeded_text @
           (if failed_sheets r > 0 then '', '' @ str_int (failed_sheets r) @ failed_text else [])
       \<and> sublist (str_int (synced_sheets r) @ ''/'' @ str_int (total_sheets r)) (message r)
       \<and> (sublist ('', '' @ str_int (failed_sheets r) @ failed_text) (message r)
            \<longleftrightarrow> failed_sheets r > 0)
       \<and> (sublist failed_text (message r) \<longleftrightarrow> failed_sheets r > 0)"
proof -
  define base where "base =
    sync_done_text @ str_int (synced_sheets r) @ ''/'' @ str_int (total_sheets r) @ succeeded_text"
  define clause where "clause = '', '' @ str_int (failed_sheets r) @ failed_text"
  define counts where "counts = str_int (synced_sheets r) @ ''/'' @ str_int (total_sheets r)"
  have msg: "message r = base @ (if failed_sheets r > 0 then clause else [])"
    using message_of_response [OF assms] by (simp add: make_message_def base_def clause_def)
  have base_counts: "base = sync_done_text @ counts @ succeeded_text"
    by (simp add: base_def counts_def)
  have counts_in_base: "sublist counts base"
    unfolding base_counts by (rule sublist_appendI)
  have no_word: "\<not> sublist failed_text base"
    unfolding base_def by (rule base_message_no_failed_text)
  have word_in_clause: "sublist failed_text clause"
  proof -
    have "clause = ('', '' @ str_int (failed_sheets r)) @ failed_text"
      by (simp add: clause_def)
    then show ?thesis by (simp only: sublist_append_leftI)
  qed
  have no_clause: "\<not> sublist clause base"
  proof
    assume "sublist clause base"
    with word_in_clause have "sublist failed_text base"
      by (rule sublist_order.order_trans)
    with no_word show False ..
  qed
  show ?thesis
  proof (cases "failed_sheets r > 0")
    case True
    then have m: "message r = base @ clause"
      using msg by simp
    have c: "sublist clause (message r)"
      unfolding m by (rule sublist_append_leftI)
    have "sublist base (message r)"
      unfolding m by (rule sublist_append_rightI)
    with counts_in_base have k: "sublist counts (message r)"
      by (rule sublist_order.order_trans)
    from word_in_clause c have f: "sublist failed_text (message r)"
      by (rule sublist_order.order_trans)
    from True msg c k f show ?thesis
      by (simp add: base_def clause_def counts_def)
  next
    case False
    then have m: "message r = base"
      using msg by simp
    from False msg counts_in_base no_word no_clause show ?thesis
      unfolding m by (simp add: base_def clause_def counts_def)
  qed
qed

theorem message_reports_counts_witness:
  "\<exists>r. fst (sync_folder_sheets demo_str ''F1'' demo_drive demo_sync 0) = Inr r
     \<and> message r = sync_done_text @ ''2/3'' @ succeeded_text @ '', 1'' @ failed_text
     \<and> sublist ''2/3'' (message r)
     \<and> sublist ('', 1'' @ failed_text) (message r)
     \<and> sublist failed_text (message r)"
proof -
  let ?r = "\<lparr> success = False, message = make_message 2 3 1,
            folder_token = ''F1'', total_sheets = 3, synced_sheets = 2, failed_sheets = 1,
            details = [Success ''A.xlsx'' ''A'' 10 2,
                       Failure ''B.xlsx'' ''B'' ''rate limited'',
                       Success ''C.xlsx'' ''C'' 5 0] \<rparr>"
  note run = message_reports_counts [OF demo_F1_response]
  have wording: "message ?r = sync_done_text @ ''2/3'' @ succeeded_text @ '', 1'' @ failed_text"
    using run [THEN conjunct1] by (simp add: str_int_small)
  have counts: "sublist ''2/3'' (message ?r)"
    using run [THEN conjunct2, THEN conjunct1] by (simp add: str_int_small)
  have clause: "sublist ('', 1'' @ failed_text) (message ?r)"
    using run [THEN conjunct2, THEN conjunct2, THEN conjunct1] by (simp add: str_int_small)
  have word: "sublist failed_text (message ?r)"
    using run [THEN conjunct2, THEN conjunct2, THEN conjunct2] by simp
  show ?thesis
    by (rule exI [of _ ?r]) (intro conjI demo_F1_response wording counts clause word)
qed

subsection \<open>Running twice\<close>

text \<open>
  Claim C9. Two successive runs on the same folder token, the second starting in the
  world the first one left: if the listing call returns the same file list in both and
  the sync calls succeed and fail on the same positions, then the two responses agree on
  \<open>total_sheets\<close>, \<open>synced_sheets\<close>, \<open>failed_sheets\<close> and \<open>success\<close>.
\<close>

theorem repeated_run_same_counts:
  assumes "get_sheets_in_folder drive_service folder w0 = (Inr sheet_files, w0')"
    and "sync_folder_sheets str_exc folder drive_service sync_service w0 = (Inr r1, w1)"
    and "get_sheets_in_folder drive_service folder w1 = (Inr sheet_files, w1')"
    and "sync_folder_sheets str_exc folder drive_service sync_service w1 = (Inr r2, w2)"
    and "map isl (sync_outcomes sync_service sheet_files w0') =
         map isl (sync_outcomes sync_service sheet_files w1')"
  shows "total_sheets r1 = total_sheets r2 \<and> synced_sheets r1 = synced_sheets r2
       \<and> failed_sheets r1 = failed_sheets r2 \<and> success r1 = success r2"
proof -
  let ?outs1 = "sync_outcomes sync_service sheet_files w0'"
  let ?outs2 = "sync_outcomes sync_service sheet_files w1'"
  have failed: "length (filter isl ?outs1) = length (filter isl ?outs2)"
    using assms(5) by (rule count_by_flags(1))
  have synced: "length (filter (\<lambda>r. \<not> isl r) ?outs1) = length (filter (\<lambda>r. \<not> isl r) ?outs2)"
    using assms(5) by (rule count_by_flags(2))
  have none: "(filter isl ?outs1 = []) = (filter isl ?outs2 = [])"
    using failed by (metis length_0_conv)
  from sync_folder_sheets_listed [OF assms(1), of str_exc sync_service] assms(2)
  have r1: "total_sheets r1 = int (length sheet_files)"
    "synced_sheets r1 = int (length (filter (\<lambda>r. \<not> isl r) ?outs1))"
    "failed_sheets r1 = int (length (filter isl ?outs1))"
    "success r1 = (filter isl ?outs1 = [])"
    by auto
  from sync_folder_sheets_listed [OF assms(3), of str_exc sync_service] assms(4)
  have r2: "total_sheets r2 = int (length sheet_files)"
    "synced_sheets r2 = int (length (filter (\<lambda>r. \<not> isl r) ?outs2))"
    "failed_sheets r2 = int (length (filter isl ?outs2))"
    "success r2 = (filter isl ?outs2 = [])"
    by auto
  from r1 r2 failed synced none show ?thesis by simp
qed

theorem repeated_run_same_counts_witness:
  "\<exists>r1 r2. sync_folder_sheets demo_str ''F1'' demo_drive demo_sync 0 = (Inr r1, 4)
     \<and> sync_folder_sheets demo_str ''F1'' demo_drive demo_sync 4 = (Inr r2, 8)
     \<and> total_sheets r1 = total_sheets r2 \<and> synced_sheets r1 = synced_sheets r2
     \<and> failed_sheets r1 = failed_sheets r2 \<and> success r1 = success r2"
proof -
  let ?files = "[demo_file ''A'', demo_file ''B'', demo_file ''C'']"
  let ?r = "\<lparr> success = False, message = make_message 2 3 1,
            folder_token = ''F1'', total_sheets = 3, synced_sheets = 2, failed_sheets = 1,
            details = [Success ''A.xlsx'' ''A'' 10 2,
                       Failure ''B.xlsx'' ''B'' ''rate limited'',
                       Success ''C.xlsx'' ''C'' 5 0] \<rparr>"
  have listed2: "get_sheets_in_folder demo_drive ''F1'' (4::nat) = (Inr ?files, 5)"
    by (simp add: demo_drive_def)
  have run2: "sync_folder_sheets demo_str ''F1'' demo_drive demo_sync 4 = (Inr ?r, 8)"
    by (simp add: sync_folder_sheets_def demo_defs dict_get_def)
  have same: "map isl (sync_outcomes demo_sync ?files (Suc 0)) =
      map isl (sync_outcomes demo_sync ?files 5)"
    by (simp add: demo_defs)
  from repeated_run_same_counts [OF demo_F1_listed demo_F1_run listed2 run2 same]
    demo_F1_run run2
  show ?thesis by blast
qed

section \<open>The handler as Python runs it\<close>

subsection \<open>On contract-keeping services the two handlers agree\<close>

lemma read_contract_result:
  "read_result (Dict rows_entry (map_option PyList sheets_entry)) =
     Inr (dict_get rows_entry 0, int (length (dict_get sheets_entry [])))"
  by (cases sheets_entry) (simp_all add: dict_get_def)

lemma py_sync_sheet_contract:
  "py_sync_sheet (contract_sync sync_service) t w =
     (case sync_sheet sync_service t w of
        (Inl e, w') \<Rightarrow> (Inl (Exc e), w')
      | (Inr result, w') \<Rightarrow>
          (Inr (Dict (total_rows_written result) (map_option PyList (sheets result))), w'))"
  by (simp add: contract_sync_def)

lemma sync_loop_py_contract:
  "sync_loop_py (contract_str str_exc) (contract_sync sync_service) fs synced failed dets w =
     (case sync_loop str_exc sync_service fs synced failed dets w of
        (locals, w') \<Rightarrow> (Inr locals, w'))"
proof (induction fs arbitrary: synced failed dets w)
  case Nil
  show ?case by simp
next
  case (Cons f fs)
  obtain r w' where step: "sync_sheet sync_service (token f) w = (r, w')"
    by (cases "sync_sheet sync_service (token f) w")
  show ?case
  proof (cases r)
    case (Inl e)
    with step Cons.IH [of synced "failed + 1" _ w'] show ?thesis
      by (simp add: py_sync_sheet_contract)
  next
    case (Inr result)
    with step Cons.IH [of "synced + 1" failed _ w'] show ?thesis
      by (simp add: py_sync_sheet_contract read_contract_result del: read_result.simps)
  qed
qed

lemma sync_folder_sheets_py_contract:
  "sync_folder_sheets_py (contract_str str_exc) folder (contract_drive drive_service)
     (contract_sync sync_service) w =
   contract_answer (sync_folder_sheets str_exc folder drive_service sync_service w)"
proof -
  obtain a w' where listed: "get_sheets_in_folder drive_service folder w = (a, w')"
    by (cases "get_sheets_in_folder drive_service folder w")
  show ?thesis
  proof (cases a)
    case (Inl e)
    with listed show ?thesis
      by (cases e) (simp_all add: sync_folder_sheets_py_def sync_folder_sheets_def contract_drive_def)
  next
    case (Inr fs)
    obtain s f d w'' where loop: "sync_loop str_exc sync_service fs 0 0 [] w' = ((s, f, d), w'')"
      by (metis prod_cases3 surj_pair)
    with listed Inr sync_loop_py_contract [of str_exc sync_service fs 0 0 "[]" w']
    show ?thesis
      by (simp add: sync_folder_sheets_py_def sync_folder_sheets_def contract_drive_def)
  qed
qed

subsection \<open>The loop\<close>

lemma length_sync_outcomes_py: "length (sync_outcomes_py sync_service fs w) = length fs"
  by (induction fs arbitrary: w) (auto split: prod.splits)

lemma read_result_raises_Exc: "read_result result = Inl e \<Longrightarrow> \<exists>x. e = Exc x"
proof (cases result)
  case NoDict
  then show "read_result result = Inl e \<Longrightarrow> \<exists>x. e = Exc x" by auto
next
  case (Dict rows_entry sheets_entry)
  assume raised: "read_result result = Inl e"
  show "\<exists>x. e = Exc x"
  proof (cases "dict_get sheets_entry (PyList [])")
    case PyNone
    with Dict raised show ?thesis by auto
  next
    case (PyInt i)
    with Dict raised show ?thesis by auto
  next
    case (PyList xs)
    with Dict raised show ?thesis by auto
  qed
qed

lemma item_except_caught:
  assumes "str_py (Exc x) = Inr s"
  shows "item_except str_py f (Exc x) synced failed dets =
           Inr (synced, failed + 1, dets @ [Failure (name f) (token f) (str_text str_py (Exc x))])"
  using assms by (simp add: str_text_def)

lemma sync_loop_py_returns:
  assumes str_returns: "\<forall>x. \<exists>s. str_py (Exc x) = Inr s"
    and no_signal: "\<forall>b. Inl (BaseException b) \<notin> set (sync_outcomes_py sync_service fs w)"
  shows "fst (sync_loop_py str_py sync_service fs synced failed dets w) =
     Inr (synced + int (length (filter (\<lambda>a. \<not> isl a) (sync_outcomes_py sync_service fs w))),
          failed + int (length (filter item_failed (sync_outcomes_py sync_service fs w))),
          dets @ map2 (item_detail_py str_py) fs (sync_outcomes_py sync_service fs w))"
  using no_signal
proof (induction fs arbitrary: synced failed dets w)
  case Nil
  show ?case by simp
next
  case (Cons f fs)
  obtain answer w' where step: "py_sync_sheet sync_service (token f) w = (answer, w')"
    by (cases "py_sync_sheet sync_service (token f) w")
  have rest: "\<forall>b. Inl (BaseException b) \<notin> set (sync_outcomes_py sync_service fs w')"
    using Cons.prems step by simp
  have head: "\<And>b. answer \<noteq> Inl (BaseException b)"
    using Cons.prems step by auto
  show ?case
  proof (cases answer)
    case (Inl e)
    with head obtain x where e: "e = Exc x"
      by (cases e) auto
    from str_returns obtain s where "str_py (Exc x) = Inr s"
      by blast
    then have caught: "item_except str_py f (Exc x) synced failed dets =
        Inr (synced, failed + 1, dets @ [Failure (name f) (token f) (str_text str_py (Exc x))])"
      by (rule item_except_caught)
    from step Inl e caught Cons.IH [OF rest, of synced "failed + 1" _] show ?thesis
      by simp
  next
    case (Inr result)
    show ?thesis
    proof (cases "read_result result")
      case (Inl e)
      then obtain x where e: "e = Exc x"
        using read_result_raises_Exc by blast
      from str_returns obtain s where "str_py (Exc x) = Inr s"
        by blast
      then have caught: "item_except str_py f (Exc x) (synced + 1) failed dets =
          Inr (synced + 1, failed + 1,
               dets @ [Failure (name f) (token f) (str_text str_py (Exc x))])"
        by (rule item_except_caught)
      from step Inr Inl e caught Cons.IH [OF rest, of "synced + 1" "failed + 1" _] show ?thesis
        by simp
    next
      case (Inr got)
      obtain rows n where got: "got = (rows, n)"
        by (cases got)
      from step \<open>answer = Inr result\<close> Inr got Cons.IH [OF rest, of "synced + 1" failed _]
      show ?thesis by simp
    qed
  qed
qed


lemma sync_folder_sheets_py_listed:
  assumes listed: "py_get_sheets_in_folder drive_service folder w = (Inr sheet_files, w')"
    and str_returns: "\<forall>x. \<exists>s. str_py (Exc x) = Inr s"
    and no_signal: "\<forall>b. Inl (BaseException b) \<notin> set (sync_outcomes_py sync_service sheet_files w')"
  shows "fst (sync_folder_sheets_py str_py folder drive_service sync_service w) =
     Inr \<lparr> success = (filter item_failed (sync_outcomes_py sync_service sheet_files w') = []),
           message = make_message
             (int (length (filter (\<lambda>a. \<not> isl a) (sync_outcomes_py sync_service sheet_files w'))))
             (int (length sheet_files))
             (int (length (filter item_failed (sync_outcomes_py sync_service sheet_files w')))),
           folder_token = folder,
           total_sheets = int (length sheet_files),
           synced_sheets =
             int (length (filter (\<lambda>a. \<not> isl a) (sync_outcomes_py sync_service sheet_files w'))),
           failed_sheets =
             int (length (filter item_failed (sync_outcomes_py sync_service sheet_files w'))),
           details = map2 (item_detail_py str_py) sheet_files
                       (sync_outcomes_py sync_service sheet_files w') \<rparr>"
proof -
  obtain res w'' where loop:
    "sync_loop_py str_py sync_service sheet_files 0 0 [] w' = (res, w'')"
    by (cases "sync_loop_py str_py sync_service sheet_files 0 0 [] w'")
  from sync_loop_py_returns [of str_py sync_service sheet_files w' 0 0 "[]", OF str_returns no_signal]
    loop
  have "res = Inr (int (length (filter (\<lambda>a. \<not> isl a) (sync_outcomes_py sync_service sheet_files w'))),
          int (length (filter item_failed (sync_outcomes_py sync_service sheet_files w'))),
          map2 (item_detail_py str_py) sheet_files (sync_outcomes_py sync_service sheet_files w'))"
    by simp
  with listed loop show ?thesis
    by (simp add: sync_folder_sheets_py_def)
qed

lemma count_unreadable:
  "length (filter (\<lambda>a. \<not> isl a) outs) + length (filter item_failed outs) =
     length outs + length (filter (\<lambda>a. \<not> isl a \<and> item_failed a) outs)"
proof (induction outs)
  case Nil
  show ?case by simp
next
  case (Cons a outs)
  then show ?case by (cases a) simp_all
qed


lemmas demo_py_defs = demo_drive_py_def demo_sync_py_def demo_str_py_def
  contract_drive_def contract_sync_def demo_defs

subsection \<open>Counts of the response\<close>

text \<open>
  Claim C1. For every folder input on which the listing succeeds, the response is to
  satisfy \<open>total_sheets = synced_sheets + failed_sheets = length details\<close>. The handler
  breaks this when a sync call returns a value that it cannot read: line 105 has already
  counted the file as synced when the read of line 110 or 111 raises, and the per-item
  handler then counts it as failed. With \<open>M\<close> returning \<^verbatim>\<open>None\<close> the response has
  \<open>total_sheets = 1\<close>, \<open>synced_sheets = 1\<close>, \<open>failed_sheets = 1\<close>; with \<open>N\<close> returning a dict
  whose \<^verbatim>\<open>"sheets"\<close> is \<^verbatim>\<open>None\<close>, after \<open>A\<close>, it has 2, 2 and 1.
\<close>

theorem counts_diverge_on_unreadable_result:
  "sync_folder_sheets_py demo_str_py ''F5'' demo_drive_py demo_sync_py 0 =
     (Inr \<lparr> success = False, message = make_message 1 1 1, folder_token = ''F5'',
            total_sheets = 1, synced_sheets = 1, failed_sheets = 1,
            details = [Failure ''M.xlsx'' ''M'' ''AttributeError''] \<rparr>, 2)
   \<and> sync_folder_sheets_py demo_str_py ''F3'' demo_drive_py demo_sync_py 0 =
     (Inr \<lparr> success = False, message = make_message 2 2 1, folder_token = ''F3'',
            total_sheets = 2, synced_sheets = 2, failed_sheets = 1,
            details = [Success ''A.xlsx'' ''A'' 10 2,
                       Failure ''N.xlsx'' ''N'' ''TypeError''] \<rparr>, 3)"
  by (simp add: sync_folder_sheets_py_def demo_py_defs dict_get_def)

text \<open>
  In every response returned, \<open>details\<close> has one entry per file, and the two counters
  exceed \<open>total_sheets\<close> by the number of sync calls that returned a value the handler
  could not read.
\<close>

lemma counts_of_returned_report:
  assumes listed: "py_get_sheets_in_folder drive_service folder w = (Inr sheet_files, w')"
    and str_returns: "\<forall>x. \<exists>s. str_py (Exc x) = Inr s"
    and no_signal: "\<forall>b. Inl (BaseException b) \<notin> set (sync_outcomes_py sync_service sheet_files w')"
  shows "\<exists>r. fst (sync_folder_sheets_py str_py folder drive_service sync_service w) = Inr r
           \<and> total_sheets r = int (length sheet_files)
           \<and> int (length (details r)) = total_sheets r
           \<and> synced_sheets r + failed_sheets r =
               total_sheets r +
               int (length (filter (\<lambda>a. \<not> isl a \<and> item_failed a)
                                   (sync_outcomes_py sync_service sheet_files w')))"
  using sync_folder_sheets_py_listed [OF listed str_returns no_signal]
    count_unreadable [of "sync_outcomes_py sync_service sheet_files w'"]
  by (simp add: length_sync_outcomes_py)

subsection \<open>Which exception goes where\<close>




end
